theory Spec2Isabelle
  imports Main "HOL-Library.Sublist"
begin

section \<open>Values handled by the tool\<close>

text \<open>
  \<^verbatim>\<open>simplismart-kube.py\<close> moves data between three libraries: \<^verbatim>\<open>json\<close> (responses of
  \<^verbatim>\<open>kubectl ... -o json\<close> and the KEDA configuration file), \<^verbatim>\<open>yaml\<close> (the manifests it
  writes) and \<^verbatim>\<open>subprocess\<close>. The values it builds and inspects are Python dicts, lists,
  strings, integers, booleans and \<^verbatim>\<open>None\<close>. A dict is kept as an association list in
  insertion order. Floating-point numbers are not represented.
\<close>

datatype json =
    JNull
  | JBool bool
  | JInt int
  | JStr string
  | JList "json list"
  | JDict "(string \<times> json) list"

text \<open>The exceptions that the modelled code paths can raise; all derive from \<^verbatim>\<open>Exception\<close>.\<close>

datatype py_error =
    CalledProcessError
  | JSONDecodeError
  | KeyError
  | TypeError
  | AttributeError
  | OSError

text \<open>Python truthiness, as used by \<^verbatim>\<open>if x:\<close> and by \<^verbatim>\<open>all(...)\<close>.\<close>

fun truthy :: "json \<Rightarrow> bool" where
  "truthy JNull = False"
| "truthy (JBool b) = b"
| "truthy (JInt n) = (n \<noteq> 0)"
| "truthy (JStr s) = (s \<noteq> [])"
| "truthy (JList xs) = (xs \<noteq> [])"
| "truthy (JDict kvs) = (kvs \<noteq> [])"

text \<open>\<^verbatim>\<open>v[key]\<close> for a string key: only a dict accepts it, and a missing key raises.\<close>

fun py_getitem :: "json \<Rightarrow> string \<Rightarrow> py_error + json" where
  "py_getitem (JDict kvs) key =
     (case map_of kvs key of None \<Rightarrow> Inl KeyError | Some v \<Rightarrow> Inr v)"
| "py_getitem _ key = Inl TypeError"

text \<open>\<^verbatim>\<open>v.get(key, default)\<close>: a method of dicts only.\<close>

fun py_get :: "json \<Rightarrow> string \<Rightarrow> json \<Rightarrow> py_error + json" where
  "py_get (JDict kvs) key dflt =
     (case map_of kvs key of None \<Rightarrow> Inr dflt | Some v \<Rightarrow> Inr v)"
| "py_get _ key dflt = Inl AttributeError"

text \<open>
  \<^verbatim>\<open>for x in v\<close>: a list yields its elements, a dict its keys, a string its characters
  (one-character strings); nothing else is iterable.
\<close>

fun py_iter :: "json \<Rightarrow> py_error + json list" where
  "py_iter (JList xs) = Inr xs"
| "py_iter (JDict kvs) = Inr (map (\<lambda>kv. JStr (fst kv)) kvs)"
| "py_iter (JStr s) = Inr (map (\<lambda>c. JStr [c]) s)"
| "py_iter _ = Inl TypeError"

text \<open>\<^verbatim>\<open>acc + v\<close> for an integer accumulator, the step of \<^verbatim>\<open>sum\<close>; \<^verbatim>\<open>True\<close> counts as 1.\<close>

fun py_add :: "int \<Rightarrow> json \<Rightarrow> py_error + int" where
  "py_add acc (JInt n) = Inr (acc + n)"
| "py_add acc (JBool b) = Inr (acc + (if b then 1 else 0))"
| "py_add acc _ = Inl TypeError"

text \<open>\<^verbatim>\<open>needle in haystack\<close> on strings.\<close>

fun str_contains :: "string \<Rightarrow> string \<Rightarrow> bool" where
  "str_contains needle [] = (needle = [])"
| "str_contains needle (c # cs) = (prefix needle (c # cs) \<or> str_contains needle cs)"

section \<open>The environment\<close>

text \<open>
  What a finished subprocess reports (\<^verbatim>\<open>subprocess.CompletedProcess\<close>).
\<close>

record cmd_result =
  returncode :: int
  stdout :: string
  stderr :: string

text \<open>
  Everything outside the program is a parameter. \<open>shell n c\<close> is what the \<open>n\<close>-th
  subprocess of the run reports when it is started with command line \<open>c\<close> (the index lets
  the same command line answer differently later in the run); \<open>can_write f\<close> says whether
  \<^verbatim>\<open>open(f, 'w')\<close> succeeds; \<open>read_file\<close> is \<^verbatim>\<open>open(f).read()\<close>; \<open>json_loads\<close> and
  \<open>yaml_dump\<close> are the two library functions, \<open>None\<close> standing for \<^verbatim>\<open>JSONDecodeError\<close>.
\<close>

record world =
  os_nt :: bool
  shell :: "nat \<Rightarrow> string \<Rightarrow> cmd_result"
  path_exists :: "string \<Rightarrow> bool"
  can_write :: "string \<Rightarrow> bool"
  read_file :: "string \<Rightarrow> string option"
  json_loads :: "string \<Rightarrow> json option"
  yaml_dump :: "json \<Rightarrow> string"

text \<open>
  The object \<^verbatim>\<open>KubernetesAutomation\<close> with its five attributes, together with the trace
  of the run's effects: the command lines handed to the shell and the files written, both
  oldest first. Console output is not recorded.
\<close>

record state =
  kubeconfig :: "string option"
  namespace :: string
  helm_installed :: bool
  keda_installed :: bool
  helm_path :: string
  cmds :: "string list"
  writes :: "(string \<times> string) list"

text \<open>\<^verbatim>\<open>if self.kubeconfig:\<close> holds for a non-empty string only.\<close>

definition has_kubeconfig :: "state \<Rightarrow> bool" where
  "has_kubeconfig s = (case kubeconfig s of None \<Rightarrow> False | Some k \<Rightarrow> k \<noteq> [])"

definition kubeconfig_str :: "state \<Rightarrow> string" where
  "kubeconfig_str s = (case kubeconfig s of None \<Rightarrow> ''None'' | Some k \<Rightarrow> k)"

definition dq :: string where
  "dq = [CHR 0x22]"

definition bs :: string where
  "bs = [CHR 0x5C]"

text \<open>
  \<^verbatim>\<open>run_command\<close>: on Windows the command is wrapped for PowerShell; with \<^verbatim>\<open>check\<close> a
  non-zero return code raises \<^verbatim>\<open>CalledProcessError\<close>, which is re-raised to the caller.
\<close>

definition shell_line :: "world \<Rightarrow> string \<Rightarrow> string" where
  "shell_line w command =
     (if os_nt w then ''powershell -Command '' @ dq @ command @ dq else command)"

definition run_command :: "world \<Rightarrow> state \<Rightarrow> string \<Rightarrow> bool \<Rightarrow> (py_error + cmd_result) \<times> state" where
  "run_command w s command check =
     (let result = shell w (length (cmds s)) (shell_line w command);
          s' = s\<lparr>cmds := cmds s @ [shell_line w command]\<rparr>
      in if check \<and> returncode result \<noteq> 0 then (Inl CalledProcessError, s')
         else (Inr result, s'))"

definition possible_paths :: "string list" where
  "possible_paths =
     [''C:'' @ bs @ ''Program Files'' @ bs @ ''helm.exe'',
      ''C:'' @ bs @ ''ProgramData'' @ bs @ ''chocolatey'' @ bs @ ''bin'' @ bs @ ''helm.exe'',
      ''C:'' @ bs @ ''Program Files'' @ bs @ ''Helm'' @ bs @ ''bin'' @ bs @ ''helm.exe'']"

definition find_helm_path :: "world \<Rightarrow> state \<Rightarrow> string \<times> state" where
  "find_helm_path w s =
     (case run_command w s ''where helm'' False of
        (Inl e, s') \<Rightarrow> (''helm'', s')
      | (Inr result, s') \<Rightarrow>
          if returncode result = 0 then (''helm'', s')
          else (case filter (path_exists w) possible_paths of
                  [] \<Rightarrow> (''helm'', s')
                | path # _ \<Rightarrow> (dq @ path @ dq, s')))"

text \<open>The constructor \<^verbatim>\<open>__init__\<close>; both flags start false.\<close>

definition KubernetesAutomation :: "world \<Rightarrow> string option \<Rightarrow> string \<Rightarrow> state" where
  "KubernetesAutomation w kc ns =
     (let s = \<lparr>kubeconfig = kc, namespace = ns, helm_installed = False,
               keda_installed = False, helm_path = [], cmds = [], writes = []\<rparr>;
          (p, s') = find_helm_path w s
      in s'\<lparr>helm_path := p\<rparr>)"

text \<open>\<^verbatim>\<open>connect_to_cluster\<close>.\<close>

definition connect_cmd :: "state \<Rightarrow> string" where
  "connect_cmd s =
     ''kubectl cluster-info'' @
     (if has_kubeconfig s then '' --kubeconfig='' @ kubeconfig_str s else [])"

definition connect_to_cluster :: "world \<Rightarrow> state \<Rightarrow> bool \<times> state" where
  "connect_to_cluster w s =
     (case run_command w s (connect_cmd s) True of
        (Inl e, s') \<Rightarrow> (False, s')
      | (Inr result, s') \<Rightarrow> (True, s'))"


text \<open>\<^verbatim>\<open>install_helm\<close>. The bare \<^verbatim>\<open>except:\<close> falls back from choco to winget.\<close>

definition install_helm :: "world \<Rightarrow> state \<Rightarrow> bool \<times> state" where
  "install_helm w s =
     (case run_command w s (helm_path s @ '' version'') False of
        (Inl e, s1) \<Rightarrow> (False, s1)
      | (Inr result, s1) \<Rightarrow>
          if returncode result = 0 then (True, s1\<lparr>helm_installed := True\<rparr>)
          else
            (case (case run_command w s1 ''choco install kubernetes-helm -y'' True of
                     (Inl e, s2) \<Rightarrow> run_command w s2 ''winget install helm.helm'' True
                   | (Inr r, s2) \<Rightarrow> (Inr r, s2)) of
               (Inl e, s3) \<Rightarrow> (False, s3)
             | (Inr r, s3) \<Rightarrow>
                 (case find_helm_path w s3 of
                    (p, s4) \<Rightarrow>
                      (case run_command w (s4\<lparr>helm_path := p\<rparr>) (p @ '' version'') True of
                         (Inl e, s5) \<Rightarrow> (False, s5)
                       | (Inr r', s5) \<Rightarrow> (True, s5\<lparr>helm_installed := True\<rparr>)))))"

text \<open>
  \<^verbatim>\<open>install_keda\<close>. The first test reads the flag \<^verbatim>\<open>helm_installed\<close>, before any command
  is run. Here the kubeconfig is quoted in the command line.
\<close>

definition quoted_kubeconfig :: "state \<Rightarrow> string" where
  "quoted_kubeconfig s =
     (if has_kubeconfig s then '' --kubeconfig='' @ dq @ kubeconfig_str s @ dq else [])"

definition install_keda :: "world \<Rightarrow> state \<Rightarrow> bool \<times> state" where
  "install_keda w s =
     (if \<not> helm_installed s then (False, s)
      else
        (case run_command w s
                (helm_path s @ '' repo add kedacore https://kedacore.github.io/charts'') True of
           (Inl e, s1) \<Rightarrow> (False, s1)
         | (Inr r1, s1) \<Rightarrow>
        (case run_command w s1 (helm_path s @ '' repo update'') True of
           (Inl e, s2) \<Rightarrow> (False, s2)
         | (Inr r2, s2) \<Rightarrow>
        (case run_command w s2
                (helm_path s @ '' install keda kedacore/keda --namespace keda --create-namespace''
                   @ quoted_kubeconfig s) True of
           (Inl e, s3) \<Rightarrow> (False, s3)
         | (Inr r3, s3) \<Rightarrow>
        (case run_command w s3 (''kubectl get pods -n keda'' @ quoted_kubeconfig s) True of
           (Inl e, s4) \<Rightarrow> (False, s4)
         | (Inr result, s4) \<Rightarrow>
             if str_contains ''keda-operator'' (stdout result)
             then (True, s4\<lparr>keda_installed := True\<rparr>)
             else (False, s4))))))"

section \<open>Manifests\<close>

text \<open>The arguments of \<^verbatim>\<open>create_deployment\<close>; \<open>None\<close> is Python's \<^verbatim>\<open>None\<close> default.\<close>

record deploy_params =
  name :: string
  image :: string
  tag :: string
  replicas :: int
  cpu_request :: string
  cpu_limit :: string
  memory_request :: string
  memory_limit :: string
  ports :: "int list option"
  keda_config :: "json option"

text \<open>The three dict literals of \<^verbatim>\<open>create_deployment\<close>.\<close>

definition deployment_doc :: "state \<Rightarrow> deploy_params \<Rightarrow> int list \<Rightarrow> json" where
  "deployment_doc s p ps =
     JDict [
       (''apiVersion'', JStr ''apps/v1''),
       (''kind'', JStr ''Deployment''),
       (''metadata'', JDict [(''name'', JStr (name p)), (''namespace'', JStr (namespace s))]),
       (''spec'', JDict [
          (''replicas'', JInt (replicas p)),
          (''selector'', JDict [(''matchLabels'', JDict [(''app'', JStr (name p))])]),
          (''template'', JDict [
             (''metadata'', JDict [(''labels'', JDict [(''app'', JStr (name p))])]),
             (''spec'', JDict [
                (''containers'', JList [JDict [
                   (''name'', JStr (name p)),
                   (''image'', JStr (image p @ '':'' @ tag p)),
                   (''ports'', JList (map (\<lambda>q. JDict [(''containerPort'', JInt q)]) ps)),
                   (''resources'', JDict [
                      (''requests'', JDict [(''cpu'', JStr (cpu_request p)),
                                            (''memory'', JStr (memory_request p))]),
                      (''limits'', JDict [(''cpu'', JStr (cpu_limit p)),
                                          (''memory'', JStr (memory_limit p))])])]])])])])]"

definition service_doc :: "state \<Rightarrow> deploy_params \<Rightarrow> int list \<Rightarrow> json" where
  "service_doc s p ps =
     JDict [
       (''apiVersion'', JStr ''v1''),
       (''kind'', JStr ''Service''),
       (''metadata'', JDict [(''name'', JStr (name p @ ''-service'')),
                             (''namespace'', JStr (namespace s))]),
       (''spec'', JDict [
          (''selector'', JDict [(''app'', JStr (name p))]),
          (''ports'', JList (map (\<lambda>q. JDict [(''port'', JInt q), (''targetPort'', JInt q)]) ps)),
          (''type'', JStr ''ClusterIP'')])]"

text \<open>
  The third literal calls \<^verbatim>\<open>keda_config.get\<close> three times, which raises when the
  configuration is not a dict.
\<close>

definition scaled_object_doc :: "state \<Rightarrow> deploy_params \<Rightarrow> json \<Rightarrow> py_error + json" where
  "scaled_object_doc s p kc =
     (case py_get kc ''min_replicas'' (JInt 1) of Inl e \<Rightarrow> Inl e | Inr mn \<Rightarrow>
      case py_get kc ''max_replicas'' (JInt 10) of Inl e \<Rightarrow> Inl e | Inr mx \<Rightarrow>
      case py_get kc ''triggers'' (JList []) of Inl e \<Rightarrow> Inl e | Inr tr \<Rightarrow>
      Inr (JDict [
        (''apiVersion'', JStr ''keda.sh/v1alpha1''),
        (''kind'', JStr ''ScaledObject''),
        (''metadata'', JDict [(''name'', JStr (name p @ ''-scaled'')),
                              (''namespace'', JStr (namespace s))]),
        (''spec'', JDict [
           (''scaleTargetRef'', JDict [(''apiVersion'', JStr ''apps/v1''),
                                       (''kind'', JStr ''Deployment''),
                                       (''name'', JStr (name p))]),
           (''minReplicaCount'', mn),
           (''maxReplicaCount'', mx),
           (''triggers'', tr)])]))"

definition deployment_file :: "deploy_params \<Rightarrow> string" where
  "deployment_file p = name p @ ''-deployment.yaml''"

definition service_file :: "deploy_params \<Rightarrow> string" where
  "service_file p = name p @ ''-service.yaml''"

definition scaled_object_file :: "deploy_params \<Rightarrow> string" where
  "scaled_object_file p = name p @ ''-scaledobject.yaml''"

definition apply_cmd :: "state \<Rightarrow> string \<Rightarrow> string" where
  "apply_cmd s file =
     ''kubectl apply -f '' @ file @
     (if has_kubeconfig s then '' --kubeconfig='' @ kubeconfig_str s else [])"

text \<open>
  The block that \<^verbatim>\<open>create_deployment\<close> repeats for each manifest: open the file for
  writing, dump the document into it, then run \<^verbatim>\<open>kubectl apply -f\<close> on it. The result is
  \<open>False\<close> when an exception left the block; the file is written before the command runs.
\<close>

definition write_and_apply :: "world \<Rightarrow> state \<Rightarrow> string \<Rightarrow> json \<Rightarrow> bool \<times> state" where
  "write_and_apply w s file doc =
     (if \<not> can_write w file then (False, s)
      else
        (case run_command w (s\<lparr>writes := writes s @ [(file, yaml_dump w doc)]\<rparr>)
                (apply_cmd s file) True of
           (Inl e, s') \<Rightarrow> (False, s')
         | (Inr r, s') \<Rightarrow> (True, s')))"

text \<open>
  \<^verbatim>\<open>create_deployment\<close>. The two \<^verbatim>\<open>is None\<close> tests come first; then the three blocks run
  inside one \<^verbatim>\<open>try\<close>, and any exception ends the function with \<^verbatim>\<open>False\<close>.
\<close>

definition ports_of :: "deploy_params \<Rightarrow> int list" where
  "ports_of p = (case ports p of None \<Rightarrow> [80] | Some l \<Rightarrow> l)"

definition config_of :: "deploy_params \<Rightarrow> json" where
  "config_of p = (case keda_config p of None \<Rightarrow> JDict [] | Some c \<Rightarrow> c)"

definition create_deployment :: "world \<Rightarrow> state \<Rightarrow> deploy_params \<Rightarrow> bool \<times> state" where
  "create_deployment w s p =
     (let ps = ports_of p;
          kc = config_of p
      in case write_and_apply w s (deployment_file p) (deployment_doc s p ps) of
           (False, s1) \<Rightarrow> (False, s1)
         | (True, s1) \<Rightarrow>
             (case (if ps \<noteq> [] then write_and_apply w s1 (service_file p) (service_doc s p ps)
                    else (True, s1)) of
                (False, s2) \<Rightarrow> (False, s2)
              | (True, s2) \<Rightarrow>
                  if truthy kc \<and> keda_installed s then
                    (case scaled_object_doc s p kc of
                       Inl e \<Rightarrow> (False, s2)
                     | Inr doc \<Rightarrow> write_and_apply w s2 (scaled_object_file p) doc)
                  else (True, s2)))"


section \<open>Deployment status\<close>

text \<open>The dicts that \<^verbatim>\<open>get_deployment_status\<close> builds: one per pod, and the summary.\<close>

record pod_status =
  pod_name :: json
  pod_phase :: json
  ready :: bool
  restarts :: int

record deployment_status =
  dep_name :: string
  ready_replicas :: json
  available_replicas :: json
  unavailable_replicas :: json
  conditions :: json
  pods :: "pod_status list"

text \<open>
  \<^verbatim>\<open>all(c["ready"] for c in cs)\<close>: the generator is consumed up to the first element that
  is not truthy, so later container statuses are not inspected.
\<close>

fun all_ready :: "json list \<Rightarrow> py_error + bool" where
  "all_ready [] = Inr True"
| "all_ready (c # cs) =
     (case py_getitem c ''ready'' of
        Inl e \<Rightarrow> Inl e
      | Inr v \<Rightarrow> if truthy v then all_ready cs else Inr False)"

text \<open>\<^verbatim>\<open>sum(c["restartCount"] for c in cs)\<close>, which starts from the integer 0.\<close>

fun sum_restarts :: "int \<Rightarrow> json list \<Rightarrow> py_error + int" where
  "sum_restarts acc [] = Inr acc"
| "sum_restarts acc (c # cs) =
     (case py_getitem c ''restartCount'' of
        Inl e \<Rightarrow> Inl e
      | Inr v \<Rightarrow> (case py_add acc v of Inl e \<Rightarrow> Inl e | Inr acc' \<Rightarrow> sum_restarts acc' cs))"

text \<open>\<^verbatim>\<open>pod["status"].get("containerStatuses", [])\<close>, as iterated by both generators.\<close>

definition container_statuses :: "json \<Rightarrow> py_error + json list" where
  "container_statuses pod =
     (case py_getitem pod ''status'' of Inl e \<Rightarrow> Inl e | Inr st \<Rightarrow>
      case py_get st ''containerStatuses'' (JList []) of Inl e \<Rightarrow> Inl e | Inr cs \<Rightarrow>
      py_iter cs)"

text \<open>The body of the loop over \<^verbatim>\<open>pods["items"]\<close>.\<close>

definition pod_status_of :: "json \<Rightarrow> py_error + pod_status" where
  "pod_status_of pod =
     (case py_getitem pod ''metadata'' of Inl e \<Rightarrow> Inl e | Inr md \<Rightarrow>
      case py_getitem md ''name'' of Inl e \<Rightarrow> Inl e | Inr nm \<Rightarrow>
      case py_getitem pod ''status'' of Inl e \<Rightarrow> Inl e | Inr st \<Rightarrow>
      case py_getitem st ''phase'' of Inl e \<Rightarrow> Inl e | Inr ph \<Rightarrow>
      case container_statuses pod of Inl e \<Rightarrow> Inl e | Inr cs \<Rightarrow>
      case all_ready cs of Inl e \<Rightarrow> Inl e | Inr r \<Rightarrow>
      case sum_restarts 0 cs of Inl e \<Rightarrow> Inl e | Inr n \<Rightarrow>
      Inr \<lparr>pod_name = nm, pod_phase = ph, ready = r, restarts = n\<rparr>)"

fun pod_statuses :: "json list \<Rightarrow> py_error + pod_status list" where
  "pod_statuses [] = Inr []"
| "pod_statuses (pod # rest) =
     (case pod_status_of pod of
        Inl e \<Rightarrow> Inl e
      | Inr ps \<Rightarrow> (case pod_statuses rest of Inl e \<Rightarrow> Inl e | Inr pss \<Rightarrow> Inr (ps # pss)))"

definition deployment_query :: "state \<Rightarrow> string \<Rightarrow> string" where
  "deployment_query s nm =
     ''kubectl get deployment '' @ nm @ '' -n '' @ namespace s @ '' -o json'' @
     (if has_kubeconfig s then '' --kubeconfig='' @ kubeconfig_str s else [])"

definition pods_query :: "state \<Rightarrow> string \<Rightarrow> string" where
  "pods_query s nm =
     ''kubectl get pods -n '' @ namespace s @ '' -l app='' @ nm @ '' -o json'' @
     (if has_kubeconfig s then '' --kubeconfig='' @ kubeconfig_str s else [])"

text \<open>\<^verbatim>\<open>json.loads\<close> as a step that can raise.\<close>

definition loads :: "world \<Rightarrow> string \<Rightarrow> py_error + json" where
  "loads w txt = (case json_loads w txt of None \<Rightarrow> Inl JSONDecodeError | Some v \<Rightarrow> Inr v)"

text \<open>The first half of \<^verbatim>\<open>get_deployment_status\<close>: the summary without its pods.\<close>

definition deployment_summary :: "string \<Rightarrow> json \<Rightarrow> py_error + deployment_status" where
  "deployment_summary nm deployment =
     (case py_getitem deployment ''status'' of Inl e \<Rightarrow> Inl e | Inr st \<Rightarrow>
      case py_get st ''readyReplicas'' (JInt 0) of Inl e \<Rightarrow> Inl e | Inr rr \<Rightarrow>
      case py_get st ''availableReplicas'' (JInt 0) of Inl e \<Rightarrow> Inl e | Inr ar \<Rightarrow>
      case py_get st ''unavailableReplicas'' (JInt 0) of Inl e \<Rightarrow> Inl e | Inr ur \<Rightarrow>
      case py_get st ''conditions'' (JList []) of Inl e \<Rightarrow> Inl e | Inr cn \<Rightarrow>
      Inr \<lparr>dep_name = nm, ready_replicas = rr, available_replicas = ar,
           unavailable_replicas = ur, conditions = cn, pods = []\<rparr>)"

text \<open>The second half, from the parsed pod list to the list of pod dicts.\<close>

definition pod_list :: "json \<Rightarrow> py_error + pod_status list" where
  "pod_list pj =
     (case py_getitem pj ''items'' of Inl e \<Rightarrow> Inl e | Inr items \<Rightarrow>
      case py_iter items of Inl e \<Rightarrow> Inl e | Inr l \<Rightarrow>
      pod_statuses l)"

text \<open>
  \<^verbatim>\<open>get_deployment_status\<close>: every exception is caught and turned into \<^verbatim>\<open>None\<close>.
\<close>

definition get_deployment_status :: "world \<Rightarrow> state \<Rightarrow> string \<Rightarrow> deployment_status option \<times> state" where
  "get_deployment_status w s nm =
     (case run_command w s (deployment_query s nm) True of
        (Inl e, s1) \<Rightarrow> (None, s1)
      | (Inr result, s1) \<Rightarrow>
     (case loads w (stdout result) of Inl e \<Rightarrow> (None, s1) | Inr deployment \<Rightarrow>
     (case deployment_summary nm deployment of Inl e \<Rightarrow> (None, s1) | Inr status \<Rightarrow>
     (case run_command w s1 (pods_query s nm) True of
        (Inl e, s2) \<Rightarrow> (None, s2)
      | (Inr result', s2) \<Rightarrow>
     (case loads w (stdout result') of Inl e \<Rightarrow> (None, s2) | Inr pj \<Rightarrow>
     (case pod_list pj of Inl e \<Rightarrow> (None, s2) | Inr pss \<Rightarrow>
        (Some (status\<lparr>pods := pss\<rparr>), s2)))))))"

section \<open>The command line\<close>

text \<open>
  What \<^verbatim>\<open>argparse\<close> hands to \<^verbatim>\<open>main\<close>: the two global options and one of the four
  subcommands. \<^verbatim>\<open>--ports\<close> always is a list here, \<^verbatim>\<open>--keda-config\<close> a path or absent.
\<close>

record deploy_args =
  arg_name :: string
  arg_image :: string
  arg_tag :: string
  arg_replicas :: int
  arg_cpu_request :: string
  arg_cpu_limit :: string
  arg_memory_request :: string
  arg_memory_limit :: string
  arg_ports :: "int list"
  arg_keda_config :: "string option"

datatype subcommand =
    Connect
  | Install bool bool
  | Deploy deploy_args
  | Status string

text \<open>
  Reading the KEDA configuration in \<^verbatim>\<open>main\<close>: an absent or empty path leaves the empty
  dict; a file that cannot be read or parsed ends the process.
\<close>

definition load_keda_config :: "world \<Rightarrow> string option \<Rightarrow> py_error + json" where
  "load_keda_config w path =
     (case path of
        None \<Rightarrow> Inr (JDict [])
      | Some f \<Rightarrow>
          if f = [] then Inr (JDict [])
          else (case read_file w f of None \<Rightarrow> Inl OSError | Some txt \<Rightarrow> loads w txt))"

definition params_of :: "deploy_args \<Rightarrow> json \<Rightarrow> deploy_params" where
  "params_of a kc =
     \<lparr>name = arg_name a, image = arg_image a, tag = arg_tag a, replicas = arg_replicas a,
      cpu_request = arg_cpu_request a, cpu_limit = arg_cpu_limit a,
      memory_request = arg_memory_request a, memory_limit = arg_memory_limit a,
      ports = Some (arg_ports a), keda_config = Some kc\<rparr>"

text \<open>
  \<^verbatim>\<open>main\<close>, after argument parsing. The result is the exit code of the process (0 when
  \<^verbatim>\<open>main\<close> returns, 1 for \<^verbatim>\<open>exit(1)\<close>) and the final state with its trace.
\<close>

definition main :: "world \<Rightarrow> string option \<Rightarrow> string \<Rightarrow> subcommand \<Rightarrow> int \<times> state" where
  "main w kc ns cmd =
     (let k8s = KubernetesAutomation w kc ns
      in case cmd of
           Connect \<Rightarrow>
             (case connect_to_cluster w k8s of
                (False, s) \<Rightarrow> (1, s)
              | (True, s) \<Rightarrow> (0, s))
         | Install helm keda \<Rightarrow>
             (case (if helm then install_helm w k8s else (True, k8s)) of
                (False, s1) \<Rightarrow> (1, s1)
              | (True, s1) \<Rightarrow>
                  (case (if keda then install_keda w s1 else (True, s1)) of
                     (False, s2) \<Rightarrow> (1, s2)
                   | (True, s2) \<Rightarrow> (0, s2)))
         | Deploy a \<Rightarrow>
             (case load_keda_config w (arg_keda_config a) of
                Inl e \<Rightarrow> (1, k8s)
              | Inr cfg \<Rightarrow>
                  (case create_deployment w k8s (params_of a cfg) of
                     (False, s) \<Rightarrow> (1, s)
                   | (True, s) \<Rightarrow> (0, s)))
         | Status nm \<Rightarrow>
             (case get_deployment_status w k8s nm of
                (None, s) \<Rightarrow> (1, s)
              | (Some status, s) \<Rightarrow> (0, s)))"


section \<open>Notions used to state the properties\<close>

text \<open>
  What one call adds to the trace: the files written and the command lines run after the
  state \<open>s\<close> was reached.
\<close>

definition new_writes :: "state \<Rightarrow> state \<Rightarrow> (string \<times> string) list" where
  "new_writes s s' = drop (length (writes s)) (writes s')"

definition new_cmds :: "state \<Rightarrow> state \<Rightarrow> string list" where
  "new_cmds s s' = drop (length (cmds s)) (cmds s')"

text \<open>
  The content that a manifest file must have, as a function of the arguments, the namespace
  and the serialiser only.
\<close>

definition manifest_of :: "world \<Rightarrow> state \<Rightarrow> deploy_params \<Rightarrow> string \<Rightarrow> string option" where
  "manifest_of w s p f =
     (if f = deployment_file p then Some (yaml_dump w (deployment_doc s p (ports_of p)))
      else if f = service_file p then Some (yaml_dump w (service_doc s p (ports_of p)))
      else if f = scaled_object_file p then
        (case scaled_object_doc s p (config_of p) of
           Inl e \<Rightarrow> None | Inr doc \<Rightarrow> Some (yaml_dump w doc))
      else None)"

text \<open>
  A replica bound of an autoscaling document: \<^verbatim>\<open>doc["spec"][key]\<close>.
\<close>

definition replica_bound :: "json \<Rightarrow> string \<Rightarrow> py_error + json" where
  "replica_bound doc key =
     (case py_getitem doc ''spec'' of Inl e \<Rightarrow> Inl e | Inr sp \<Rightarrow> py_getitem sp key)"

text \<open>
  The words of the status properties. A container status reports ready when its
  \<^verbatim>\<open>ready\<close> entry is truthy; its restart count is its \<^verbatim>\<open>restartCount\<close> entry. The two
  responses are those of the first and second command of a status query started in state
  \<open>s\<close>, and the matched pods are the items of the second.
\<close>

definition reports_ready :: "json \<Rightarrow> bool" where
  "reports_ready c = (case py_getitem c ''ready'' of Inl e \<Rightarrow> False | Inr v \<Rightarrow> truthy v)"

definition restart_count :: "json \<Rightarrow> int" where
  "restart_count c =
     (case py_getitem c ''restartCount'' of
        Inr (JInt k) \<Rightarrow> k
      | Inr (JBool b) \<Rightarrow> (if b then 1 else 0)
      | _ \<Rightarrow> 0)"

definition deployment_response :: "world \<Rightarrow> state \<Rightarrow> string \<Rightarrow> cmd_result" where
  "deployment_response w s nm =
     shell w (length (cmds s)) (shell_line w (deployment_query s nm))"

definition pods_response :: "world \<Rightarrow> state \<Rightarrow> string \<Rightarrow> cmd_result" where
  "pods_response w s nm =
     shell w (Suc (length (cmds s))) (shell_line w (pods_query s nm))"

definition matched_pods :: "world \<Rightarrow> state \<Rightarrow> string \<Rightarrow> py_error + json list" where
  "matched_pods w s nm =
     (case loads w (stdout (pods_response w s nm)) of Inl e \<Rightarrow> Inl e | Inr pj \<Rightarrow>
      case py_getitem pj ''items'' of Inl e \<Rightarrow> Inl e | Inr items \<Rightarrow>
      py_iter items)"

definition pod_reported :: "json \<Rightarrow> pod_status \<Rightarrow> bool" where
  "pod_reported pod ps =
     (case container_statuses pod of
        Inl e \<Rightarrow> False
      | Inr cs \<Rightarrow> ready ps = list_all reports_ready cs \<and>
                 restarts ps = sum_list (map restart_count cs))"

definition all_containers :: "json list \<Rightarrow> json list" where
  "all_containers items =
     concat (map (\<lambda>pod. case container_statuses pod of Inl e \<Rightarrow> [] | Inr cs \<Rightarrow> cs) items)"

text \<open>
  The plan of \<^verbatim>\<open>create_deployment\<close>, in the order of its three blocks: the file of each
  manifest with its document, or the exception that building the document raises. The
  service step is planned when the list of ports is not empty, the autoscaling step when
  the configuration is truthy and \<^verbatim>\<open>keda_installed\<close> is set.
\<close>

type_synonym step = "string \<times> (py_error + json)"

definition manifest_plan :: "state \<Rightarrow> deploy_params \<Rightarrow> step list" where
  "manifest_plan s p =
     [(deployment_file p, Inr (deployment_doc s p (ports_of p)))] @
     (if ports_of p \<noteq> [] then [(service_file p, Inr (service_doc s p (ports_of p)))] else []) @
     (if truthy (config_of p) \<and> keda_installed s
      then [(scaled_object_file p, scaled_object_doc s p (config_of p))] else [])"

text \<open>
  A step reaches \<^verbatim>\<open>kubectl apply\<close> when its document was built and its file could be
  opened; it then has written its file and runs its command. It succeeds when that
  command, the \<open>n\<close>-th of the run, returns 0.
\<close>

definition step_reaches_apply :: "world \<Rightarrow> step \<Rightarrow> bool" where
  "step_reaches_apply w st =
     (case snd st of Inl e \<Rightarrow> False | Inr doc \<Rightarrow> can_write w (fst st))"

definition step_cmd :: "world \<Rightarrow> state \<Rightarrow> step \<Rightarrow> string" where
  "step_cmd w s st = shell_line w (apply_cmd s (fst st))"

definition step_write :: "world \<Rightarrow> step \<Rightarrow> string \<times> string" where
  "step_write w st = (fst st, case snd st of Inl e \<Rightarrow> [] | Inr doc \<Rightarrow> yaml_dump w doc)"

definition step_ok :: "world \<Rightarrow> state \<Rightarrow> nat \<Rightarrow> step \<Rightarrow> bool" where
  "step_ok w s n st =
     (step_reaches_apply w st \<and> returncode (shell w n (step_cmd w s st)) = 0)"

text \<open>
  The number of steps at the head of a plan that succeed, and the number of steps that
  wrote their file and ran their command: the former, and the first failing step when it
  got as far as its command.
\<close>

fun steps_completed :: "world \<Rightarrow> state \<Rightarrow> nat \<Rightarrow> step list \<Rightarrow> nat" where
  "steps_completed w s n [] = 0"
| "steps_completed w s n (st # rest) =
     (if step_ok w s n st then Suc (steps_completed w s (Suc n) rest) else 0)"

definition steps_attempted :: "world \<Rightarrow> state \<Rightarrow> nat \<Rightarrow> step list \<Rightarrow> nat" where
  "steps_attempted w s n plan =
     (let k = steps_completed w s n plan
      in if k < length plan \<and> step_reaches_apply w (plan ! k) then Suc k else k)"

text \<open>
  Carrying out a plan step by step, stopping at the first step that fails.
\<close>

fun apply_in_order :: "world \<Rightarrow> state \<Rightarrow> step list \<Rightarrow> bool \<times> state" where
  "apply_in_order w s [] = (True, s)"
| "apply_in_order w s ((f, Inl e) # rest) = (False, s)"
| "apply_in_order w s ((f, Inr doc) # rest) =
     (case write_and_apply w s f doc of
        (False, s') \<Rightarrow> (False, s')
      | (True, s') \<Rightarrow> apply_in_order w s' rest)"

section \<open>Example environments\<close>

text \<open>
  A stand-in for \<^verbatim>\<open>yaml.dump\<close> in the examples; it prints the \<^verbatim>\<open>kind\<close> line only.
\<close>

definition kind_line :: "json \<Rightarrow> string" where
  "kind_line d = (case py_getitem d ''kind'' of Inr (JStr k) \<Rightarrow> ''kind: '' @ k | _ \<Rightarrow> [])"

definition exit_with :: "int \<Rightarrow> cmd_result" where
  "exit_with rc = \<lparr>returncode = rc, stdout = [], stderr = []\<rparr>"

text \<open>
  Three environments: every command succeeds; every command fails (an unreachable cluster
  and no Helm); only applying the service manifest of \<^verbatim>\<open>myapp\<close> fails.
\<close>

definition ok_world :: world where
  "ok_world =
     \<lparr>os_nt = False, shell = (\<lambda>n c. exit_with 0), path_exists = (\<lambda>f. False),
      can_write = (\<lambda>f. True), read_file = (\<lambda>f. None), json_loads = (\<lambda>t. None),
      yaml_dump = kind_line\<rparr>"

definition dead_world :: world where
  "dead_world = ok_world\<lparr>shell := (\<lambda>n c. exit_with 1)\<rparr>"

definition svc_fail_world :: world where
  "svc_fail_world =
     ok_world\<lparr>shell := (\<lambda>n c.
        if c = ''kubectl apply -f myapp-service.yaml'' then exit_with 1 else exit_with 0)\<rparr>"

text \<open>
  An object on which both install flags have been set, the arguments of a call of
  \<^verbatim>\<open>create_deployment\<close>, and the command line
  \<^verbatim>\<open>deploy myapp nginx --tag 1.25 --replicas 3 --ports 8080\<close>.
\<close>

definition keda_state :: state where
  "keda_state =
     \<lparr>kubeconfig = None, namespace = ''default'', helm_installed = True,
      keda_installed = True, helm_path = ''helm'', cmds = [], writes = []\<rparr>"

definition myapp_params :: deploy_params where
  "myapp_params =
     \<lparr>name = ''myapp'', image = ''nginx'', tag = ''1.25'', replicas = 3,
      cpu_request = ''100m'', cpu_limit = ''500m'',
      memory_request = ''128Mi'', memory_limit = ''512Mi'',
      ports = Some [8080], keda_config = Some (JDict [(''triggers'', JList [])])\<rparr>"

definition myapp_args :: deploy_args where
  "myapp_args =
     \<lparr>arg_name = ''myapp'', arg_image = ''nginx'', arg_tag = ''1.25'', arg_replicas = 3,
      arg_cpu_request = ''100m'', arg_cpu_limit = ''500m'',
      arg_memory_request = ''128Mi'', arg_memory_limit = ''512Mi'',
      arg_ports = [8080], arg_keda_config = None\<rparr>"

text \<open>
  A status query that matches three pods: one whose container is ready, one whose container
  is not, and one that has no container statuses yet. The parser of the environment maps
  the two response texts to the parsed documents.
\<close>

definition pod_a :: json where
  "pod_a = JDict [
     (''metadata'', JDict [(''name'', JStr ''myapp-a'')]),
     (''status'', JDict [
        (''phase'', JStr ''Running''),
        (''containerStatuses'', JList [
           JDict [(''ready'', JBool True), (''restartCount'', JInt 1)]])])]"

definition pod_b :: json where
  "pod_b = JDict [
     (''metadata'', JDict [(''name'', JStr ''myapp-b'')]),
     (''status'', JDict [
        (''phase'', JStr ''Running''),
        (''containerStatuses'', JList [
           JDict [(''ready'', JBool False), (''restartCount'', JInt 1)]])])]"

definition pod_c :: json where
  "pod_c = JDict [
     (''metadata'', JDict [(''name'', JStr ''myapp-c'')]),
     (''status'', JDict [(''phase'', JStr ''Pending'')])]"

definition ok_result :: "string \<Rightarrow> cmd_result" where
  "ok_result out = \<lparr>returncode = 0, stdout = out, stderr = []\<rparr>"

definition status_world :: world where
  "status_world =
     \<lparr>os_nt = False,
      shell = (\<lambda>n c.
        if c = ''kubectl get deployment myapp -n default -o json'' then ok_result ''<deployment>''
        else if c = ''kubectl get pods -n default -l app=myapp -o json'' then ok_result ''<pods>''
        else ok_result []),
      path_exists = (\<lambda>f. False),
      can_write = (\<lambda>f. True),
      read_file = (\<lambda>f. None),
      json_loads = (\<lambda>t.
        if t = ''<deployment>'' then Some (JDict [(''status'', JDict [(''readyReplicas'', JInt 1)])])
        else if t = ''<pods>'' then Some (JDict [(''items'', JList [pod_a, pod_b, pod_c])])
        else None),
      yaml_dump = (\<lambda>d. [])\<rparr>"

definition status_state :: state where
  "status_state = KubernetesAutomation status_world None ''default''"

definition expected_status :: deployment_status where
  "expected_status =
     \<lparr>dep_name = ''myapp'', ready_replicas = JInt 1, available_replicas = JInt 0,
      unavailable_replicas = JInt 0, conditions = JList [],
      pods = [\<lparr>pod_name = JStr ''myapp-a'', pod_phase = JStr ''Running'', ready = True, restarts = 1\<rparr>,
              \<lparr>pod_name = JStr ''myapp-b'', pod_phase = JStr ''Running'', ready = False, restarts = 1\<rparr>,
              \<lparr>pod_name = JStr ''myapp-c'', pod_phase = JStr ''Pending'', ready = True, restarts = 0\<rparr>]\<rparr>"

text \<open>
  The same environment, except that the pod list does not parse.
\<close>

definition garbled_world :: world where
  "garbled_world =
     status_world\<lparr>json_loads := (\<lambda>t.
        if t = ''<deployment>'' then Some (JDict [(''status'', JDict [(''readyReplicas'', JInt 1)])])
        else None)\<rparr>"

definition garbled_state :: state where
  "garbled_state = KubernetesAutomation garbled_world None ''default''"

text \<open>
  An environment in which every command succeeds and the file \<^verbatim>\<open>keda.json\<close> holds an
  autoscaling policy, and the command line
  \<^verbatim>\<open>deploy myapp nginx --tag 1.25 --replicas 3 --ports 8080 --keda-config keda.json\<close>.
\<close>

definition policy_world :: world where
  "policy_world =
     ok_world\<lparr>read_file := (\<lambda>f. if f = ''keda.json'' then Some ''<policy>'' else None),
               json_loads := (\<lambda>t.
                 if t = ''<policy>''
                 then Some (JDict [(''min_replicas'', JInt 2),
                                   (''triggers'', JList [JDict [(''type'', JStr ''cpu'')]])])
                 else None)\<rparr>"

definition policy_args :: deploy_args where
  "policy_args = myapp_args\<lparr>arg_keda_config := Some ''keda.json''\<rparr>"

section \<open>Basic facts about commands and the constructor\<close>

lemma has_kubeconfig_upd [simp]:
  "has_kubeconfig (s\<lparr>cmds := c\<rparr>) = has_kubeconfig s"
  "has_kubeconfig (s\<lparr>writes := x\<rparr>) = has_kubeconfig s"
  by (simp_all add: has_kubeconfig_def)

lemma kubeconfig_str_upd [simp]:
  "kubeconfig_str (s\<lparr>cmds := c\<rparr>) = kubeconfig_str s"
  "kubeconfig_str (s\<lparr>writes := x\<rparr>) = kubeconfig_str s"
  by (simp_all add: kubeconfig_str_def)

lemma apply_cmd_upd [simp]:
  "apply_cmd (s\<lparr>cmds := c\<rparr>) f = apply_cmd s f"
  "apply_cmd (s\<lparr>writes := x\<rparr>) f = apply_cmd s f"
  by (simp_all add: apply_cmd_def)

text \<open>A command always extends the trace by its command line and changes nothing else.\<close>

lemma run_command_eq:
  "run_command w s c chk =
     ((if chk \<and> returncode (shell w (length (cmds s)) (shell_line w c)) \<noteq> 0
       then Inl CalledProcessError
       else Inr (shell w (length (cmds s)) (shell_line w c))),
      s\<lparr>cmds := cmds s @ [shell_line w c]\<rparr>)"
  by (simp add: run_command_def Let_def)

lemma write_and_apply_eq:
  "write_and_apply w s f d =
     (if \<not> can_write w f then (False, s)
      else (returncode (shell w (length (cmds s)) (shell_line w (apply_cmd s f))) = 0,
            s\<lparr>writes := writes s @ [(f, yaml_dump w d)],
              cmds := cmds s @ [shell_line w (apply_cmd s f)]\<rparr>))"
  by (simp add: write_and_apply_def run_command_eq)

lemma find_helm_path_state:
  "snd (find_helm_path w s) = s\<lparr>cmds := cmds s @ [shell_line w ''where helm'']\<rparr>"
  by (simp add: find_helm_path_def run_command_eq split: list.splits)

text \<open>The freshly constructed object: one command has run, and both flags are false.\<close>

lemma init_state:
  "KubernetesAutomation w kc ns =
     \<lparr>kubeconfig = kc, namespace = ns, helm_installed = False, keda_installed = False,
      helm_path = fst (find_helm_path w \<lparr>kubeconfig = kc, namespace = ns, helm_installed = False,
               keda_installed = False, helm_path = [], cmds = [], writes = []\<rparr>),
      cmds = [shell_line w ''where helm''], writes = []\<rparr>"
  using find_helm_path_state [of w "\<lparr>kubeconfig = kc, namespace = ns, helm_installed = False,
               keda_installed = False, helm_path = [], cmds = [], writes = []\<rparr>"]
  by (auto simp: KubernetesAutomation_def Let_def split: prod.splits)

lemma file_names_distinct [simp]:
  "deployment_file p \<noteq> service_file p" "deployment_file p \<noteq> scaled_object_file p"
  "service_file p \<noteq> scaled_object_file p" "service_file p \<noteq> deployment_file p"
  "scaled_object_file p \<noteq> deployment_file p" "scaled_object_file p \<noteq> service_file p"
  by (simp_all add: deployment_file_def service_file_def scaled_object_file_def)

lemma shell_line_inj [simp]: "shell_line w a = shell_line w b \<longleftrightarrow> a = b"
  by (simp add: shell_line_def)

lemma apply_cmd_inj [simp]: "apply_cmd s f = apply_cmd s g \<longleftrightarrow> f = g"
  by (simp add: apply_cmd_def)

section \<open>Installing the autoscaler without the package manager\<close>

text \<open>
  Claim C10. \<^verbatim>\<open>install --keda\<close> without \<^verbatim>\<open>--helm\<close> fails in every environment: the
  process exits with code 1, and the only command it has run is the constructor's search
  for Helm, because \<^verbatim>\<open>install_keda\<close> reads the flag \<^verbatim>\<open>helm_installed\<close>, which the
  constructor set to false and which only \<^verbatim>\<open>install_helm\<close> sets.
\<close>

theorem keda_without_helm_fails:
  "fst (main w kc ns (Install False True)) = 1 \<and>
   cmds (snd (main w kc ns (Install False True))) = [shell_line w ''where helm'']"
  by (simp add: main_def Let_def install_keda_def init_state)

theorem keda_without_helm_fails_witness:
  "fst (main dead_world None ''default'' (Install False True)) = 1 \<and>
   cmds (snd (main dead_world None ''default'' (Install False True))) = [''where helm'']"
  using keda_without_helm_fails [of dead_world None "''default''"]
  by (simp add: shell_line_def dead_world_def ok_world_def)

section \<open>Which manifests are produced\<close>

text \<open>
  Claim C4. When \<^verbatim>\<open>create_deployment\<close> is called with an empty list of ports, it writes
  no file \<^verbatim>\<open><name>-service.yaml\<close> and runs no command that applies one.
\<close>

theorem no_ports_no_service_doc:
  "ports p = Some [] \<Longrightarrow>
   service_file p \<notin> fst ` set (new_writes s (snd (create_deployment w s p))) \<and>
   shell_line w (apply_cmd s (service_file p))
     \<notin> set (new_cmds s (snd (create_deployment w s p)))"
  by (auto simp: create_deployment_def write_and_apply_eq Let_def ports_of_def
        new_writes_def new_cmds_def split: sum.splits bool.splits if_splits)

theorem no_ports_no_service_doc_witness:
  "ports (myapp_params\<lparr>ports := Some []\<rparr>) = Some [] \<and>
   map fst (new_writes keda_state
     (snd (create_deployment ok_world keda_state (myapp_params\<lparr>ports := Some []\<rparr>)))) =
     [''myapp-deployment.yaml'', ''myapp-scaledobject.yaml''] \<and>
   service_file (myapp_params\<lparr>ports := Some []\<rparr>) \<notin> fst ` set (new_writes keda_state
     (snd (create_deployment ok_world keda_state (myapp_params\<lparr>ports := Some []\<rparr>))))"
proof -
  have h: "ports (myapp_params\<lparr>ports := Some []\<rparr>) = Some []"
    by simp
  have e: "map fst (new_writes keda_state
     (snd (create_deployment ok_world keda_state (myapp_params\<lparr>ports := Some []\<rparr>)))) =
     [''myapp-deployment.yaml'', ''myapp-scaledobject.yaml'']"
    by code_simp
  from no_ports_no_service_doc [OF h, of keda_state ok_world] h e show ?thesis
    by simp
qed

text \<open>
  Claim C5. When no autoscaling configuration is passed (\<^verbatim>\<open>None\<close>, or the empty dict that
  \<^verbatim>\<open>main\<close> passes when \<^verbatim>\<open>--keda-config\<close> is absent), \<^verbatim>\<open>create_deployment\<close> writes no file
  \<^verbatim>\<open><name>-scaledobject.yaml\<close> and applies none, whatever the flag \<^verbatim>\<open>keda_installed\<close> of
  the state \<open>s\<close> says.
\<close>

theorem no_policy_no_autoscaling_doc:
  "keda_config p = None \<or> keda_config p = Some (JDict []) \<Longrightarrow>
   scaled_object_file p \<notin> fst ` set (new_writes s (snd (create_deployment w s p))) \<and>
   shell_line w (apply_cmd s (scaled_object_file p))
     \<notin> set (new_cmds s (snd (create_deployment w s p)))"
  by (auto simp: create_deployment_def write_and_apply_eq Let_def config_of_def
        new_writes_def new_cmds_def split: sum.splits bool.splits if_splits)

theorem no_policy_no_autoscaling_doc_witness:
  "keda_config (myapp_params\<lparr>keda_config := None\<rparr>) = None \<and>
   keda_installed keda_state \<and>
   map fst (new_writes keda_state
     (snd (create_deployment ok_world keda_state (myapp_params\<lparr>keda_config := None\<rparr>)))) =
     [''myapp-deployment.yaml'', ''myapp-service.yaml''] \<and>
   scaled_object_file (myapp_params\<lparr>keda_config := None\<rparr>) \<notin> fst ` set (new_writes keda_state
     (snd (create_deployment ok_world keda_state (myapp_params\<lparr>keda_config := None\<rparr>))))"
proof -
  have h: "keda_config (myapp_params\<lparr>keda_config := None\<rparr>) = None"
    by simp
  have k: "keda_installed keda_state"
    by (simp add: keda_state_def)
  have e: "map fst (new_writes keda_state
     (snd (create_deployment ok_world keda_state (myapp_params\<lparr>keda_config := None\<rparr>)))) =
     [''myapp-deployment.yaml'', ''myapp-service.yaml'']"
    by code_simp
  from no_policy_no_autoscaling_doc [of "myapp_params\<lparr>keda_config := None\<rparr>" keda_state ok_world]
    h k e show ?thesis
    by simp
qed

subsection \<open>Default replica bounds\<close>

lemma scaled_object_doc_bounds:
  "scaled_object_doc s p (JDict kvs) = Inr doc \<Longrightarrow>
   replica_bound doc ''minReplicaCount'' =
      Inr (case map_of kvs ''min_replicas'' of None \<Rightarrow> JInt 1 | Some v \<Rightarrow> v) \<and>
   replica_bound doc ''maxReplicaCount'' =
      Inr (case map_of kvs ''max_replicas'' of None \<Rightarrow> JInt 10 | Some v \<Rightarrow> v)"
  by (auto simp: scaled_object_doc_def replica_bound_def split: option.splits)

lemma scaled_object_written:
  "(scaled_object_file p, c) \<in> set (new_writes s (snd (create_deployment w s p))) \<Longrightarrow>
   \<exists>doc. scaled_object_doc s p (config_of p) = Inr doc \<and> c = yaml_dump w doc"
  by (auto simp: create_deployment_def write_and_apply_eq Let_def
        new_writes_def split: sum.splits bool.splits if_splits)

text \<open>
  Claim C6. When the autoscaling configuration is a dict with neither \<^verbatim>\<open>min_replicas\<close> nor
  \<^verbatim>\<open>max_replicas\<close>, every autoscaling manifest that \<^verbatim>\<open>create_deployment\<close> writes is the
  dump of a document whose \<^verbatim>\<open>minReplicaCount\<close> is 1 and whose \<^verbatim>\<open>maxReplicaCount\<close> is 10.
\<close>

theorem default_replica_bounds:
  assumes "keda_config p = Some (JDict kvs)"
    and "map_of kvs ''min_replicas'' = None"
    and "map_of kvs ''max_replicas'' = None"
    and "(scaled_object_file p, c) \<in> set (new_writes s (snd (create_deployment w s p)))"
  shows "\<exists>doc. c = yaml_dump w doc \<and> scaled_object_doc s p (JDict kvs) = Inr doc \<and>
           replica_bound doc ''minReplicaCount'' = Inr (JInt 1) \<and>
           replica_bound doc ''maxReplicaCount'' = Inr (JInt 10)"
proof -
  from assms(1) have cfg: "config_of p = JDict kvs"
    by (simp add: config_of_def)
  from scaled_object_written [OF assms(4)] cfg obtain doc
    where doc: "scaled_object_doc s p (JDict kvs) = Inr doc" and c: "c = yaml_dump w doc"
    by auto
  from scaled_object_doc_bounds [OF doc] assms(2,3) c doc show ?thesis
    by simp
qed

theorem default_replica_bounds_witness:
  "(scaled_object_file myapp_params, ''kind: ScaledObject'')
     \<in> set (new_writes keda_state (snd (create_deployment ok_world keda_state myapp_params))) \<and>
   (\<exists>doc. ''kind: ScaledObject'' = yaml_dump ok_world doc \<and>
      scaled_object_doc keda_state myapp_params (JDict [(''triggers'', JList [])]) = Inr doc \<and>
      replica_bound doc ''minReplicaCount'' = Inr (JInt 1) \<and>
      replica_bound doc ''maxReplicaCount'' = Inr (JInt 10))"
proof -
  have h1: "keda_config myapp_params = Some (JDict [(''triggers'', JList [])])"
    by (simp add: myapp_params_def)
  have h2: "map_of [(''triggers'', JList [])] ''min_replicas'' = None"
    by simp
  have h3: "map_of [(''triggers'', JList [])] ''max_replicas'' = None"
    by simp
  have h4: "(scaled_object_file myapp_params, ''kind: ScaledObject'')
     \<in> set (new_writes keda_state (snd (create_deployment ok_world keda_state myapp_params)))"
    by code_simp
  from default_replica_bounds [OF h1 h2 h3 h4] h4 show ?thesis
    by simp
qed

subsection \<open>Determinism of the manifests\<close>

lemma doc_namespace:
  "namespace s1 = namespace s2 \<Longrightarrow> deployment_doc s1 p ps = deployment_doc s2 p ps"
  "namespace s1 = namespace s2 \<Longrightarrow> service_doc s1 p ps = service_doc s2 p ps"
  "namespace s1 = namespace s2 \<Longrightarrow> scaled_object_doc s1 p kc = scaled_object_doc s2 p kc"
  by (simp_all add: deployment_doc_def service_doc_def scaled_object_doc_def split: sum.splits)

lemma written_is_manifest:
  "(f, c) \<in> set (new_writes s (snd (create_deployment w s p))) \<Longrightarrow>
   manifest_of w s p f = Some c"
  by (auto simp: create_deployment_def write_and_apply_eq Let_def manifest_of_def
        new_writes_def split: sum.splits bool.splits if_splits)

lemma manifest_of_cong:
  "namespace s1 = namespace s2 \<Longrightarrow> yaml_dump w1 = yaml_dump w2 \<Longrightarrow>
   manifest_of w1 s1 p f = manifest_of w2 s2 p f"
  by (simp add: manifest_of_def doc_namespace [of s1 s2] split: sum.splits)

text \<open>
  Claim C7. Two runs of \<^verbatim>\<open>create_deployment\<close> on the same arguments and namespace, with
  the same serialiser, write the same bytes into every file that both of them write. The
  runs may differ in everything else: the answers of the commands, the kubeconfig, the
  install flags and the earlier trace.
\<close>

theorem manifests_deterministic:
  assumes "namespace s1 = namespace s2" and "yaml_dump w1 = yaml_dump w2"
    and "(f, c1) \<in> set (new_writes s1 (snd (create_deployment w1 s1 p)))"
    and "(f, c2) \<in> set (new_writes s2 (snd (create_deployment w2 s2 p)))"
  shows "c1 = c2"
  using written_is_manifest [OF assms(3)] written_is_manifest [OF assms(4)]
    manifest_of_cong [OF assms(1,2), of p f]
  by simp

theorem manifests_deterministic_witness:
  "namespace keda_state = namespace (KubernetesAutomation dead_world (Some ''cfg'') ''default'') \<and>
   yaml_dump ok_world = yaml_dump dead_world \<and>
   (deployment_file myapp_params, ''kind: Deployment'')
     \<in> set (new_writes keda_state (snd (create_deployment ok_world keda_state myapp_params))) \<and>
   (deployment_file myapp_params, ''kind: Deployment'')
     \<in> set (new_writes (KubernetesAutomation dead_world (Some ''cfg'') ''default'')
          (snd (create_deployment dead_world
             (KubernetesAutomation dead_world (Some ''cfg'') ''default'') myapp_params)))"
proof -
  have h1: "namespace keda_state = namespace (KubernetesAutomation dead_world (Some ''cfg'') ''default'')"
    by code_simp
  have h2: "yaml_dump ok_world = yaml_dump dead_world"
    by (simp add: dead_world_def)
  have h3: "(deployment_file myapp_params, ''kind: Deployment'')
     \<in> set (new_writes keda_state (snd (create_deployment ok_world keda_state myapp_params)))"
    by code_simp
  have h4: "(deployment_file myapp_params,
      yaml_dump dead_world (deployment_doc (KubernetesAutomation dead_world (Some ''cfg'') ''default'')
         myapp_params (ports_of myapp_params)))
     \<in> set (new_writes (KubernetesAutomation dead_world (Some ''cfg'') ''default'')
          (snd (create_deployment dead_world
             (KubernetesAutomation dead_world (Some ''cfg'') ''default'') myapp_params)))"
    by code_simp
  from manifests_deterministic [OF h1 h2 h3 h4] h1 h2 h3 h4 show ?thesis
    by simp
qed

section \<open>Order of application and failure\<close>

text \<open>
  \<^verbatim>\<open>create_deployment\<close> carries out its plan in order and stops at the first failure.
\<close>

lemma create_deployment_plan:
  "create_deployment w s p = apply_in_order w s (manifest_plan s p)"
  by (auto simp: create_deployment_def manifest_plan_def Let_def
        split: prod.splits bool.splits sum.splits)

lemma apply_cmd_kubeconfig:
  "kubeconfig s = kubeconfig s0 \<Longrightarrow> apply_cmd s f = apply_cmd s0 f"
  by (simp add: apply_cmd_def has_kubeconfig_def kubeconfig_str_def)

text \<open>
  The exact outcome of carrying out a plan: the result says whether every step succeeded,
  and the trace grows by the writes and commands of the steps attempted, nothing else.
\<close>

lemma apply_in_order_trace:
  "kubeconfig s = kubeconfig s0 \<Longrightarrow>
   apply_in_order w s plan =
     (steps_completed w s0 (length (cmds s)) plan = length plan,
      s\<lparr>writes := writes s @ map (step_write w) (take (steps_attempted w s0 (length (cmds s)) plan) plan),
        cmds := cmds s @ map (step_cmd w s0) (take (steps_attempted w s0 (length (cmds s)) plan) plan)\<rparr>)"
proof (induction plan arbitrary: s)
  case Nil
  then show ?case
    by (simp add: steps_attempted_def)
next
  case (Cons st rest)
  obtain f d where st: "st = (f, d)"
    by (cases st)
  note ac = apply_cmd_kubeconfig [OF Cons.prems]
  show ?case
  proof (cases d)
    case (Inl e)
    with st show ?thesis
      by (simp add: steps_attempted_def step_ok_def step_reaches_apply_def)
  next
    case (Inr doc)
    show ?thesis
    proof (cases "step_ok w s0 (length (cmds s)) st")
      case False
      with st Inr Cons.prems show ?thesis
        by (auto simp: steps_attempted_def step_ok_def step_reaches_apply_def step_cmd_def
              step_write_def write_and_apply_eq ac)
    next
      case True
      let ?s' = "s\<lparr>writes := writes s @ [(f, yaml_dump w doc)],
                    cmds := cmds s @ [shell_line w (apply_cmd s f)]\<rparr>"
      have k: "kubeconfig ?s' = kubeconfig s0"
        using Cons.prems by simp
      from True st Inr Cons.prems
      have step: "apply_in_order w s (st # rest) = apply_in_order w ?s' rest"
        by (simp add: step_ok_def step_reaches_apply_def step_cmd_def write_and_apply_eq ac)
      from True have att: "steps_attempted w s0 (length (cmds s)) (st # rest) =
          Suc (steps_attempted w s0 (Suc (length (cmds s))) rest)"
        by (simp add: steps_attempted_def Let_def)
      from True have cmp: "steps_completed w s0 (length (cmds s)) (st # rest) =
          Suc (steps_completed w s0 (Suc (length (cmds s))) rest)"
        by simp
      show ?thesis
        unfolding step att cmp Cons.IH [OF k]
        using st Inr Cons.prems
        by (simp add: step_write_def step_cmd_def ac)
    qed
  qed
qed

lemma create_deployment_trace:
  "create_deployment w s p =
     (steps_completed w s (length (cmds s)) (manifest_plan s p) = length (manifest_plan s p),
      s\<lparr>writes := writes s @ map (step_write w)
           (take (steps_attempted w s (length (cmds s)) (manifest_plan s p)) (manifest_plan s p)),
        cmds := cmds s @ map (step_cmd w s)
           (take (steps_attempted w s (length (cmds s)) (manifest_plan s p)) (manifest_plan s p))\<rparr>)"
  by (simp add: create_deployment_plan apply_in_order_trace)

lemma new_trace:
  "new_cmds s (snd (create_deployment w s p)) =
     map (step_cmd w s)
       (take (steps_attempted w s (length (cmds s)) (manifest_plan s p)) (manifest_plan s p))"
  "new_writes s (snd (create_deployment w s p)) =
     map (step_write w)
       (take (steps_attempted w s (length (cmds s)) (manifest_plan s p)) (manifest_plan s p))"
  by (simp_all add: create_deployment_trace new_cmds_def new_writes_def)

lemma plan_order:
  "subseq (map fst (manifest_plan s p))
     [deployment_file p, service_file p, scaled_object_file p]"
  by (simp add: manifest_plan_def)

lemma deploy_failure_is_last:
  "i < length (new_cmds s (snd (create_deployment w s p))) \<Longrightarrow>
   returncode (shell w (length (cmds s) + i) (new_cmds s (snd (create_deployment w s p)) ! i)) \<noteq> 0 \<Longrightarrow>
   Suc i = length (new_cmds s (snd (create_deployment w s p))) \<and> \<not> fst (create_deployment w s p)"
  by (auto simp: create_deployment_def write_and_apply_eq Let_def less_Suc_eq
        numeral_2_eq_2 numeral_3_eq_3 new_cmds_def split: sum.splits bool.splits if_splits)

lemma main_deploy:
  "main w kc ns (Deploy a) =
     (case load_keda_config w (arg_keda_config a) of
        Inl e \<Rightarrow> (1, KubernetesAutomation w kc ns)
      | Inr cfg \<Rightarrow>
          ((if fst (create_deployment w (KubernetesAutomation w kc ns) (params_of a cfg))
            then 0 else 1),
           snd (create_deployment w (KubernetesAutomation w kc ns) (params_of a cfg))))"
  by (simp add: main_def Let_def split: sum.splits prod.splits bool.splits)

lemma main_deploy_exit:
  "fst (main w kc ns (Deploy a)) =
     (case load_keda_config w (arg_keda_config a) of
        Inl e \<Rightarrow> 1
      | Inr cfg \<Rightarrow>
          if fst (create_deployment w (KubernetesAutomation w kc ns) (params_of a cfg))
          then 0 else 1)"
  by (simp add: main_deploy split: sum.splits)

text \<open>
  The object that \<^verbatim>\<open>main\<close> constructs has \<^verbatim>\<open>keda_installed\<close> false, so its plan never
  holds the autoscaling step.
\<close>

lemma init_plan:
  "manifest_plan (KubernetesAutomation w kc ns) p =
     (deployment_file p, Inr (deployment_doc (KubernetesAutomation w kc ns) p (ports_of p))) #
     (if ports_of p \<noteq> []
      then [(service_file p, Inr (service_doc (KubernetesAutomation w kc ns) p (ports_of p)))]
      else [])"
  by (simp add: manifest_plan_def init_state)

lemma main_deploy_writes:
  "writes (snd (main w kc ns (Deploy a))) =
     (case load_keda_config w (arg_keda_config a) of
        Inl e \<Rightarrow> []
      | Inr cfg \<Rightarrow>
          map (step_write w)
            (take (steps_attempted w (KubernetesAutomation w kc ns) 1
                     (manifest_plan (KubernetesAutomation w kc ns) (params_of a cfg)))
               (manifest_plan (KubernetesAutomation w kc ns) (params_of a cfg))))"
  by (simp add: main_deploy create_deployment_trace init_state split: sum.splits)

lemma main_deploy_cmds:
  "cmds (snd (main w kc ns (Deploy a))) =
     shell_line w ''where helm'' #
     (case load_keda_config w (arg_keda_config a) of
        Inl e \<Rightarrow> []
      | Inr cfg \<Rightarrow>
          map (step_cmd w (KubernetesAutomation w kc ns))
            (take (steps_attempted w (KubernetesAutomation w kc ns) 1
                     (manifest_plan (KubernetesAutomation w kc ns) (params_of a cfg)))
               (manifest_plan (KubernetesAutomation w kc ns) (params_of a cfg))))"
  by (simp add: main_deploy create_deployment_trace init_state split: sum.splits)

lemma scaled_file_params [simp]:
  "scaled_object_file (params_of a cfg) = arg_name a @ ''-scaledobject.yaml''"
  "deployment_file (params_of a cfg) = arg_name a @ ''-deployment.yaml''"
  "service_file (params_of a cfg) = arg_name a @ ''-service.yaml''"
  "ports_of (params_of a cfg) = arg_ports a"
  by (simp_all add: scaled_object_file_def deployment_file_def service_file_def
        ports_of_def params_of_def)

lemma main_deploy_never_scaledobject:
  "arg_name a @ ''-scaledobject.yaml'' \<notin> fst ` set (writes (snd (main w kc ns (Deploy a)))) \<and>
   length (writes (snd (main w kc ns (Deploy a)))) \<le> 2"
  by (auto simp: main_deploy_writes init_plan step_write_def
        split: sum.splits dest!: in_set_takeD)

lemma apply_cmd_not_where: "apply_cmd s f \<noteq> ''where helm''"
  by (simp add: apply_cmd_def)

lemma main_deploy_never_applies_scaledobject:
  "shell_line w (apply_cmd (KubernetesAutomation w kc ns) (arg_name a @ ''-scaledobject.yaml''))
     \<notin> set (cmds (snd (main w kc ns (Deploy a))))"
  by (auto simp: main_deploy_cmds init_plan step_cmd_def apply_cmd_not_where
        split: sum.splits if_splits dest!: in_set_takeD)

text \<open>
  Claim C3, as amended. \<^verbatim>\<open>create_deployment\<close> plans, in this order, the workload manifest,
  the service manifest when the list of ports is not empty, and the autoscaling manifest
  when a policy is supplied and the flag \<^verbatim>\<open>keda_installed\<close> of the object is set. It
  carries the plan out in that order, each step writing its file and then applying it,
  up to the first step that fails; a step fails when its document cannot be built, its
  file cannot be opened or its \<^verbatim>\<open>kubectl apply\<close> returns a non-zero code, and no later step
  writes or runs anything. The call returns \<^verbatim>\<open>True\<close> exactly when every planned step
  succeeds; a command that returns a non-zero code is the last one of the call. The
  process exits with code 0 when the call made by \<^verbatim>\<open>main\<close> returns \<^verbatim>\<open>True\<close> and with
  code 1 otherwise. In a process started from the command line the flag is false, so
  \<^verbatim>\<open>deploy\<close> never writes or applies the autoscaling manifest there and writes at most
  two manifests.
\<close>

theorem deploy_steps_in_order_until_failure:
  "subseq (map fst (manifest_plan s p))
     [deployment_file p, service_file p, scaled_object_file p] \<and>
   new_cmds s (snd (create_deployment w s p)) =
     map (step_cmd w s)
       (take (steps_attempted w s (length (cmds s)) (manifest_plan s p)) (manifest_plan s p)) \<and>
   new_writes s (snd (create_deployment w s p)) =
     map (step_write w)
       (take (steps_attempted w s (length (cmds s)) (manifest_plan s p)) (manifest_plan s p)) \<and>
   fst (create_deployment w s p) =
     (steps_completed w s (length (cmds s)) (manifest_plan s p) = length (manifest_plan s p)) \<and>
   (\<forall>i < length (new_cmds s (snd (create_deployment w s p))).
      returncode (shell w (length (cmds s) + i)
                    (new_cmds s (snd (create_deployment w s p)) ! i)) \<noteq> 0 \<longrightarrow>
      Suc i = length (new_cmds s (snd (create_deployment w s p))) \<and>
      \<not> fst (create_deployment w s p)) \<and>
   fst (main w kc ns (Deploy a)) =
     (case load_keda_config w (arg_keda_config a) of
        Inl e \<Rightarrow> 1
      | Inr cfg \<Rightarrow>
          if fst (create_deployment w (KubernetesAutomation w kc ns) (params_of a cfg))
          then 0 else 1) \<and>
   arg_name a @ ''-scaledobject.yaml'' \<notin> fst ` set (writes (snd (main w kc ns (Deploy a)))) \<and>
   length (writes (snd (main w kc ns (Deploy a)))) \<le> 2 \<and>
   shell_line w (apply_cmd (KubernetesAutomation w kc ns) (arg_name a @ ''-scaledobject.yaml''))
     \<notin> set (cmds (snd (main w kc ns (Deploy a))))"
proof -
  have 1: "fst (create_deployment w s p) =
     (steps_completed w s (length (cmds s)) (manifest_plan s p) = length (manifest_plan s p))"
    by (simp add: create_deployment_trace)
  have 2: "\<forall>i < length (new_cmds s (snd (create_deployment w s p))).
      returncode (shell w (length (cmds s) + i)
                    (new_cmds s (snd (create_deployment w s p)) ! i)) \<noteq> 0 \<longrightarrow>
      Suc i = length (new_cmds s (snd (create_deployment w s p))) \<and>
      \<not> fst (create_deployment w s p)"
    using deploy_failure_is_last [of _ s w p] by blast
  note 3 = main_deploy_never_scaledobject [of a w kc ns]
  from plan_order [of s p] new_trace [of s w p] 1 2 main_deploy_exit [of w kc ns a]
    3 [THEN conjunct1] 3 [THEN conjunct2] main_deploy_never_applies_scaledobject [of w kc ns a]
  show ?thesis
    by (intro conjI)
qed

theorem deploy_steps_in_order_until_failure_witness:
  "new_cmds keda_state (snd (create_deployment svc_fail_world keda_state myapp_params)) =
     [''kubectl apply -f myapp-deployment.yaml'', ''kubectl apply -f myapp-service.yaml''] \<and>
   map fst (manifest_plan keda_state myapp_params) =
     [''myapp-deployment.yaml'', ''myapp-service.yaml'', ''myapp-scaledobject.yaml''] \<and>
   steps_completed svc_fail_world keda_state 0 (manifest_plan keda_state myapp_params) = 1 \<and>
   steps_attempted svc_fail_world keda_state 0 (manifest_plan keda_state myapp_params) = 2 \<and>
   returncode (shell svc_fail_world (length (cmds keda_state) + 1)
      (new_cmds keda_state (snd (create_deployment svc_fail_world keda_state myapp_params)) ! 1)) \<noteq> 0 \<and>
   \<not> fst (create_deployment svc_fail_world keda_state myapp_params) \<and>
   fst (main svc_fail_world None ''default'' (Deploy myapp_args)) = 1"
proof -
  have h1: "new_cmds keda_state (snd (create_deployment svc_fail_world keda_state myapp_params)) =
     [''kubectl apply -f myapp-deployment.yaml'', ''kubectl apply -f myapp-service.yaml'']"
    by code_simp
  have h2: "returncode (shell svc_fail_world (length (cmds keda_state) + 1)
      (new_cmds keda_state (snd (create_deployment svc_fail_world keda_state myapp_params)) ! 1)) \<noteq> 0"
    by code_simp
  have h3: "map fst (manifest_plan keda_state myapp_params) =
     [''myapp-deployment.yaml'', ''myapp-service.yaml'', ''myapp-scaledobject.yaml'']"
    by code_simp
  have h4: "steps_completed svc_fail_world keda_state 0 (manifest_plan keda_state myapp_params) = 1"
    by code_simp
  have h5: "steps_attempted svc_fail_world keda_state 0 (manifest_plan keda_state myapp_params) = 2"
    by code_simp
  have h6: "fst (main svc_fail_world None ''default'' (Deploy myapp_args)) = 1"
    by code_simp
  note t = deploy_steps_in_order_until_failure [of keda_state myapp_params svc_fail_world
      None "''default''" myapp_args]
  have g: "\<not> fst (create_deployment svc_fail_world keda_state myapp_params)"
    using t [THEN conjunct2, THEN conjunct2, THEN conjunct2, THEN conjunct2, THEN conjunct1,
             rule_format, of 1] h1 h2
    by simp
  from g h1 h2 h3 h4 h5 h6 show ?thesis
    by simp
qed

text \<open>
  Claim C3 as stated fails: a deploy action does not apply three manifests. With a policy
  supplied in \<^verbatim>\<open>keda.json\<close>, a port to expose and every command succeeding, \<^verbatim>\<open>deploy\<close>
  exits with code 0 after applying the workload and the service manifest only.
\<close>

theorem deploy_skips_autoscaling_counterexample:
  "load_keda_config policy_world (arg_keda_config policy_args) =
     Inr (JDict [(''min_replicas'', JInt 2),
                 (''triggers'', JList [JDict [(''type'', JStr ''cpu'')]])]) \<and>
   fst (main policy_world None ''default'' (Deploy policy_args)) = 0 \<and>
   cmds (snd (main policy_world None ''default'' (Deploy policy_args))) =
     [''where helm'', ''kubectl apply -f myapp-deployment.yaml'',
      ''kubectl apply -f myapp-service.yaml''] \<and>
   map fst (writes (snd (main policy_world None ''default'' (Deploy policy_args)))) =
     [''myapp-deployment.yaml'', ''myapp-service.yaml'']"
  by code_simp

section \<open>Subcommands and an unreachable cluster\<close>

lemma connect_writes: "writes (snd (connect_to_cluster w s)) = writes s"
  by (simp add: connect_to_cluster_def run_command_eq)

lemma find_helm_path_writes: "find_helm_path w s = (p, s') \<Longrightarrow> writes s' = writes s"
  using find_helm_path_state [of w s] by simp

lemma install_helm_writes: "writes (snd (install_helm w s)) = writes s"
  by (auto simp: install_helm_def run_command_eq split: sum.splits prod.splits
        dest!: find_helm_path_writes)

lemma install_keda_writes: "writes (snd (install_keda w s)) = writes s"
  by (simp add: install_keda_def run_command_eq)

lemma status_writes: "writes (snd (get_deployment_status w s nm)) = writes s"
  by (simp add: get_deployment_status_def run_command_eq split: sum.splits)

lemma main_connect:
  "main w kc ns Connect =
     ((if fst (connect_to_cluster w (KubernetesAutomation w kc ns)) then 0 else 1),
      snd (connect_to_cluster w (KubernetesAutomation w kc ns)))"
  by (simp add: main_def Let_def split: prod.splits bool.splits)

lemma install_helm_writesD: "install_helm w s = (r, s') \<Longrightarrow> writes s' = writes s"
  using install_helm_writes [of w s] by simp

lemma install_keda_writesD: "install_keda w s = (r, s') \<Longrightarrow> writes s' = writes s"
  using install_keda_writes [of w s] by simp

lemma main_install_writes: "writes (snd (main w kc ns (Install h k))) = []"
proof -
  have i: "writes (KubernetesAutomation w kc ns) = []"
    by (simp add: init_state)
  show ?thesis
    by (auto simp: main_def Let_def i split: prod.splits bool.splits if_splits
          dest!: install_helm_writesD install_keda_writesD)
qed

lemma main_status:
  "main w kc ns (Status nm) =
     ((case fst (get_deployment_status w (KubernetesAutomation w kc ns) nm) of
         None \<Rightarrow> 1 | Some st \<Rightarrow> 0),
      snd (get_deployment_status w (KubernetesAutomation w kc ns) nm))"
  by (simp add: main_def Let_def split: prod.splits option.splits)

lemma status_query_fails:
  "returncode (deployment_response w s nm) \<noteq> 0 \<or> returncode (pods_response w s nm) \<noteq> 0 \<Longrightarrow>
   fst (get_deployment_status w s nm) = None"
  by (auto simp: get_deployment_status_def run_command_eq deployment_response_def
        pods_response_def split: sum.splits)

lemma connect_cmd_not_apply: "connect_cmd s \<noteq> apply_cmd s' f"
  by (simp add: connect_cmd_def apply_cmd_def)

lemma connect_cmd_not_where: "connect_cmd s \<noteq> ''where helm''"
  by (simp add: connect_cmd_def)

lemma deploy_no_connectivity_check:
  "shell_line w (connect_cmd (KubernetesAutomation w kc ns))
     \<notin> set (cmds (snd (main w kc ns (Deploy a))))"
  by (auto simp: main_deploy_cmds step_cmd_def connect_cmd_not_apply connect_cmd_not_where
        split: sum.splits)

lemma attempted_first:
  "step_reaches_apply w st \<Longrightarrow> 0 < steps_attempted w s n (st # rest)"
  by (simp add: steps_attempted_def Let_def)

lemma attempted_first_fails:
  "\<not> step_ok w s n st \<Longrightarrow>
   steps_attempted w s n (st # rest) = (if step_reaches_apply w st then 1 else 0)"
  by (simp add: steps_attempted_def Let_def)

lemma take_attempted:
  "0 < m \<Longrightarrow> take m (x # xs) = x # take (m - 1) xs"
  by (cases m) simp_all

lemma deploy_writes_first:
  assumes "load_keda_config w (arg_keda_config a) = Inr cfg"
    and "can_write w (arg_name a @ ''-deployment.yaml'')"
  shows "take 1 (writes (snd (main w kc ns (Deploy a)))) =
           [(arg_name a @ ''-deployment.yaml'',
             yaml_dump w (deployment_doc (KubernetesAutomation w kc ns) (params_of a cfg)
                            (arg_ports a)))] \<and>
         take 2 (cmds (snd (main w kc ns (Deploy a)))) =
           [shell_line w ''where helm'',
            shell_line w (apply_cmd (KubernetesAutomation w kc ns)
                            (arg_name a @ ''-deployment.yaml''))]"
proof -
  let ?k = "KubernetesAutomation w kc ns"
  let ?st = "(arg_name a @ ''-deployment.yaml'',
              Inr (deployment_doc ?k (params_of a cfg) (arg_ports a)))"
  obtain rest where plan: "manifest_plan ?k (params_of a cfg) = ?st # rest"
    by (simp add: init_plan)
  from assms(2) have r: "step_reaches_apply w ?st"
    by (simp add: step_reaches_apply_def)
  from attempted_first [OF r] have m: "0 < steps_attempted w ?k (Suc 0) (?st # rest)" .
  have tk: "take (steps_attempted w ?k (Suc 0) (?st # rest)) (?st # rest) =
      ?st # take (steps_attempted w ?k (Suc 0) (?st # rest) - 1) rest"
    by (rule take_attempted [OF m])
  have w1: "writes (snd (main w kc ns (Deploy a))) =
      map (step_write w) (?st # take (steps_attempted w ?k (Suc 0) (?st # rest) - 1) rest)"
    using assms(1) plan tk by (simp add: main_deploy_writes)
  have c1: "cmds (snd (main w kc ns (Deploy a))) = shell_line w ''where helm'' #
      map (step_cmd w ?k) (?st # take (steps_attempted w ?k (Suc 0) (?st # rest) - 1) rest)"
    using assms(1) plan tk by (simp add: main_deploy_cmds)
  show ?thesis
    unfolding w1 c1
    by (simp add: step_write_def step_cmd_def numeral_2_eq_2)
qed

lemma deploy_first_apply_fails:
  assumes "returncode (shell w 1 (shell_line w
        (apply_cmd (KubernetesAutomation w kc ns) (arg_name a @ ''-deployment.yaml'')))) \<noteq> 0"
  shows "fst (main w kc ns (Deploy a)) = 1 \<and>
         writes (snd (main w kc ns (Deploy a))) =
           (case load_keda_config w (arg_keda_config a) of
              Inl e \<Rightarrow> []
            | Inr cfg \<Rightarrow>
                if can_write w (arg_name a @ ''-deployment.yaml'')
                then [(arg_name a @ ''-deployment.yaml'',
                       yaml_dump w (deployment_doc (KubernetesAutomation w kc ns)
                                      (params_of a cfg) (arg_ports a)))]
                else [])"
proof (cases "load_keda_config w (arg_keda_config a)")
  case (Inl e)
  then show ?thesis
    by (simp add: main_deploy_exit main_deploy_writes)
next
  case (Inr cfg)
  let ?k = "KubernetesAutomation w kc ns"
  let ?st = "(deployment_file (params_of a cfg),
              Inr (deployment_doc ?k (params_of a cfg) (ports_of (params_of a cfg))))"
  obtain rest where plan: "manifest_plan ?k (params_of a cfg) = ?st # rest"
    by (simp add: init_plan)
  from assms have f: "\<not> step_ok w ?k 1 ?st"
    by (simp add: step_ok_def step_cmd_def)
  have c: "length (cmds ?k) = 1"
    by (simp add: init_state)
  from Inr plan f c show ?thesis
    by (simp add: main_deploy_exit main_deploy_writes create_deployment_trace
          attempted_first_fails step_reaches_apply_def step_write_def)
qed

lemma quoted_kubeconfig_cong:
  "kubeconfig s = kubeconfig s' \<Longrightarrow> quoted_kubeconfig s = quoted_kubeconfig s'"
  by (simp add: quoted_kubeconfig_def has_kubeconfig_def kubeconfig_str_def)

lemma find_helm_path_kubeconfig:
  "find_helm_path w s = (p, s') \<Longrightarrow> kubeconfig s' = kubeconfig s"
  using find_helm_path_state [of w s] by simp

lemma install_helm_kubeconfig: "install_helm w s = (r, s') \<Longrightarrow> kubeconfig s' = kubeconfig s"
  by (auto simp: install_helm_def run_command_eq split: sum.splits prod.splits if_splits
        dest!: find_helm_path_kubeconfig)

lemma install_keda_needs_pods:
  "install_keda w s = (True, s') \<Longrightarrow>
   \<exists>n. returncode (shell w n (shell_line w (''kubectl get pods -n keda'' @ quoted_kubeconfig s))) = 0"
  by (auto simp: install_keda_def run_command_eq split: if_splits)

lemma main_install:
  "main w kc ns (Install h k) =
     (let r1 = (if h then install_helm w (KubernetesAutomation w kc ns)
                else (True, KubernetesAutomation w kc ns))
      in if \<not> fst r1 then (1, snd r1)
         else (let r2 = (if k then install_keda w (snd r1) else (True, snd r1))
               in ((if fst r2 then 0 else 1), snd r2)))"
  by (simp add: main_def Let_def split: prod.splits bool.splits)

lemma install_keda_unreachable:
  assumes "\<forall>n. returncode (shell w n (shell_line w
              (''kubectl get pods -n keda'' @ quoted_kubeconfig (KubernetesAutomation w kc ns)))) \<noteq> 0"
  shows "fst (main w kc ns (Install h True)) = 1"
proof -
  let ?k = "KubernetesAutomation w kc ns"
  let ?r1 = "if h then install_helm w ?k else (True, ?k)"
  have no: "\<not> fst (install_keda w s)" if "kubeconfig s = kubeconfig ?k" for s
    using install_keda_needs_pods [of w s "snd (install_keda w s)"] assms
      quoted_kubeconfig_cong [OF that]
    by (cases "install_keda w s") auto
  have "kubeconfig (snd ?r1) = kubeconfig ?k"
    using install_helm_kubeconfig [of w ?k "fst (install_helm w ?k)" "snd (install_helm w ?k)"]
    by simp
  from no [OF this] show ?thesis
    by (simp add: main_install Let_def)
qed

text \<open>
  Claim C1, as amended. When the connectivity check fails, \<^verbatim>\<open>connect\<close> exits with code 1
  and writes no manifest. \<^verbatim>\<open>install\<close> and \<^verbatim>\<open>status\<close> never write a manifest;
  \<^verbatim>\<open>install --keda\<close> exits with code 1 when the query \<^verbatim>\<open>kubectl get pods -n keda\<close> cannot
  succeed, and \<^verbatim>\<open>status\<close> exits with code 1 when one of its two cluster queries fails.
  \<^verbatim>\<open>deploy\<close> does
  not run the connectivity check. Its first cluster command applies
  \<^verbatim>\<open><name>-deployment.yaml\<close>, and when the configuration loads and the file can be
  opened, that file is written first whatever the command returns. When that command
  fails, \<^verbatim>\<open>deploy\<close> exits with code 1, and \<^verbatim>\<open><name>-deployment.yaml\<close> is the one file it
  has written (none when the configuration did not load or the file could not be opened).
\<close>

theorem connect_failure_no_manifests:
  "(\<not> fst (connect_to_cluster w (KubernetesAutomation w kc ns)) \<longrightarrow>
      fst (main w kc ns Connect) = 1 \<and> writes (snd (main w kc ns Connect)) = []) \<and>
   writes (snd (main w kc ns (Install h k))) = [] \<and>
   ((\<forall>n. returncode (shell w n (shell_line w
        (''kubectl get pods -n keda'' @ quoted_kubeconfig (KubernetesAutomation w kc ns)))) \<noteq> 0) \<longrightarrow>
      fst (main w kc ns (Install h True)) = 1) \<and>
   writes (snd (main w kc ns (Status nm))) = [] \<and>
   (returncode (deployment_response w (KubernetesAutomation w kc ns) nm) \<noteq> 0 \<or>
    returncode (pods_response w (KubernetesAutomation w kc ns) nm) \<noteq> 0 \<longrightarrow>
      fst (main w kc ns (Status nm)) = 1) \<and>
   shell_line w (connect_cmd (KubernetesAutomation w kc ns))
     \<notin> set (cmds (snd (main w kc ns (Deploy a)))) \<and>
   (load_keda_config w (arg_keda_config a) = Inr cfg \<and>
    can_write w (arg_name a @ ''-deployment.yaml'') \<longrightarrow>
      take 1 (writes (snd (main w kc ns (Deploy a)))) =
        [(arg_name a @ ''-deployment.yaml'',
          yaml_dump w (deployment_doc (KubernetesAutomation w kc ns) (params_of a cfg)
                         (arg_ports a)))] \<and>
      take 2 (cmds (snd (main w kc ns (Deploy a)))) =
        [shell_line w ''where helm'',
         shell_line w (apply_cmd (KubernetesAutomation w kc ns)
                         (arg_name a @ ''-deployment.yaml''))]) \<and>
   (returncode (shell w 1 (shell_line w
        (apply_cmd (KubernetesAutomation w kc ns) (arg_name a @ ''-deployment.yaml'')))) \<noteq> 0 \<longrightarrow>
      fst (main w kc ns (Deploy a)) = 1 \<and>
      writes (snd (main w kc ns (Deploy a))) =
        (case load_keda_config w (arg_keda_config a) of
           Inl e \<Rightarrow> []
         | Inr cfg \<Rightarrow>
             if can_write w (arg_name a @ ''-deployment.yaml'')
             then [(arg_name a @ ''-deployment.yaml'',
                    yaml_dump w (deployment_doc (KubernetesAutomation w kc ns)
                                   (params_of a cfg) (arg_ports a)))]
             else []))"
proof -
  let ?k = "KubernetesAutomation w kc ns"
  have i: "writes ?k = []"
    by (simp add: init_state)
  have c: "\<not> fst (connect_to_cluster w ?k) \<longrightarrow>
      fst (main w kc ns Connect) = 1 \<and> writes (snd (main w kc ns Connect)) = []"
    by (simp add: main_connect connect_writes i)
  have s: "writes (snd (main w kc ns (Status nm))) = []"
    by (simp add: main_status status_writes i)
  have q: "returncode (deployment_response w ?k nm) \<noteq> 0 \<or>
    returncode (pods_response w ?k nm) \<noteq> 0 \<longrightarrow> fst (main w kc ns (Status nm)) = 1"
    using status_query_fails [of w ?k nm] by (auto simp: main_status)
  from c main_install_writes [of w kc ns h k] install_keda_unreachable [of w kc ns h]
    s q deploy_no_connectivity_check [of w kc ns a]
    deploy_writes_first [of w a cfg kc ns] deploy_first_apply_fails [of w kc ns a]
  show ?thesis
    by blast
qed

theorem connect_failure_no_manifests_witness:
  "\<not> fst (connect_to_cluster dead_world (KubernetesAutomation dead_world None ''default'')) \<and>
   returncode (deployment_response dead_world
      (KubernetesAutomation dead_world None ''default'') ''myapp'') \<noteq> 0 \<and>
   load_keda_config dead_world (arg_keda_config myapp_args) = Inr (JDict []) \<and>
   can_write dead_world (arg_name myapp_args @ ''-deployment.yaml'') \<and>
   returncode (shell dead_world 1 (shell_line dead_world
        (apply_cmd (KubernetesAutomation dead_world None ''default'')
           (arg_name myapp_args @ ''-deployment.yaml'')))) \<noteq> 0 \<and>
   fst (main dead_world None ''default'' Connect) = 1 \<and>
   writes (snd (main dead_world None ''default'' Connect)) = [] \<and>
   fst (main dead_world None ''default'' (Install False True)) = 1 \<and>
   fst (main dead_world None ''default'' (Status ''myapp'')) = 1 \<and>
   fst (main dead_world None ''default'' (Deploy myapp_args)) = 1 \<and>
   take 1 (writes (snd (main dead_world None ''default'' (Deploy myapp_args)))) =
     [(''myapp-deployment.yaml'', ''kind: Deployment'')]"
proof -
  have h1: "\<not> fst (connect_to_cluster dead_world (KubernetesAutomation dead_world None ''default''))"
    by code_simp
  have h2: "returncode (deployment_response dead_world
      (KubernetesAutomation dead_world None ''default'') ''myapp'') \<noteq> 0"
    by code_simp
  have h3: "load_keda_config dead_world (arg_keda_config myapp_args) = Inr (JDict [])"
    by code_simp
  have h4: "can_write dead_world (arg_name myapp_args @ ''-deployment.yaml'')"
    by code_simp
  have h5: "returncode (shell dead_world 1 (shell_line dead_world
        (apply_cmd (KubernetesAutomation dead_world None ''default'')
           (arg_name myapp_args @ ''-deployment.yaml'')))) \<noteq> 0"
    by code_simp
  have e: "yaml_dump dead_world (deployment_doc (KubernetesAutomation dead_world None ''default'')
             (params_of myapp_args (JDict [])) (arg_ports myapp_args)) = ''kind: Deployment''"
    by code_simp
  have n: "arg_name myapp_args @ ''-deployment.yaml'' = ''myapp-deployment.yaml''"
    by code_simp
  have h6: "\<forall>n. returncode (shell dead_world n (shell_line dead_world
        (''kubectl get pods -n keda'' @
           quoted_kubeconfig (KubernetesAutomation dead_world None ''default'')))) \<noteq> 0"
    by (simp add: dead_world_def ok_world_def exit_with_def)
  from connect_failure_no_manifests [of dead_world None "''default''" False False "''myapp''"
      myapp_args "JDict []"] h1 h2 h3 h4 h5 h6 e n
  show ?thesis
    by simp
qed

text \<open>
  Claim C1 as stated fails. In the environment where every command fails, the connectivity
  check fails, and yet \<^verbatim>\<open>deploy myapp nginx ...\<close> leaves \<^verbatim>\<open>myapp-deployment.yaml\<close> behind
  (the file is written before \<^verbatim>\<open>kubectl apply\<close> runs), and \<^verbatim>\<open>install\<close> without flags
  exits with code 0.
\<close>

theorem deploy_writes_before_connecting_counterexample:
  "\<not> fst (connect_to_cluster dead_world (KubernetesAutomation dead_world None ''default'')) \<and>
   fst (main dead_world None ''default'' (Deploy myapp_args)) = 1 \<and>
   writes (snd (main dead_world None ''default'' (Deploy myapp_args))) =
     [(''myapp-deployment.yaml'', ''kind: Deployment'')] \<and>
   fst (main dead_world None ''default'' (Install False False)) = 0"
  by code_simp

section \<open>Properties of the deployment status\<close>

lemma all_ready_spec: "all_ready cs = Inr b \<Longrightarrow> b = list_all reports_ready cs"
  by (induction cs) (auto simp: reports_ready_def split: sum.splits if_splits)

lemma py_add_spec:
  "py_getitem c ''restartCount'' = Inr v \<Longrightarrow> py_add acc v = Inr n \<Longrightarrow> n = acc + restart_count c"
  by (cases v) (auto simp: restart_count_def)

lemma sum_restarts_spec:
  "sum_restarts acc cs = Inr n \<Longrightarrow> n = acc + sum_list (map restart_count cs)"
proof (induction cs arbitrary: acc)
  case Nil
  then show ?case by simp
next
  case (Cons c cs)
  from Cons.prems obtain v acc' where v: "py_getitem c ''restartCount'' = Inr v"
    and a: "py_add acc v = Inr acc'" and r: "sum_restarts acc' cs = Inr n"
    by (auto split: sum.splits)
  from py_add_spec [OF v a] Cons.IH [OF r] show ?case by simp
qed

lemma pod_status_of_reported: "pod_status_of pod = Inr ps \<Longrightarrow> pod_reported pod ps"
  by (auto simp: pod_status_of_def pod_reported_def split: sum.splits
        dest: all_ready_spec sum_restarts_spec)

lemma pod_statuses_each:
  "pod_statuses items = Inr pss \<Longrightarrow> list_all2 (\<lambda>pod ps. pod_status_of pod = Inr ps) items pss"
  by (induction items arbitrary: pss) (auto split: sum.splits)

lemma status_pods:
  "fst (get_deployment_status w s nm) = Some st \<Longrightarrow>
   \<exists>items. matched_pods w s nm = Inr items \<and> pod_statuses items = Inr (pods st)"
  by (auto simp: get_deployment_status_def run_command_eq matched_pods_def pods_response_def
        pod_list_def split: sum.splits if_splits)

lemma pod_status_of_empty:
  "pod_status_of pod = Inr ps \<Longrightarrow> container_statuses pod = Inr [] \<Longrightarrow>
   ready ps \<and> restarts ps = 0"
  by (auto simp: pod_status_of_def split: sum.splits)

text \<open>
  Claim C2, as amended. When a status query returns a result, its list of pods has one
  entry per matched pod, in order, and in each entry the readiness flag is true if and
  only if every container status of that pod reports ready, and the restart count is the
  sum of the restart counts of that pod's container statuses.
\<close>

theorem pod_flags_per_pod:
  assumes "fst (get_deployment_status w s nm) = Some st"
  shows "\<exists>items. matched_pods w s nm = Inr items \<and> list_all2 pod_reported items (pods st)"
proof -
  from status_pods [OF assms] obtain items
    where m: "matched_pods w s nm = Inr items" and p: "pod_statuses items = Inr (pods st)"
    by blast
  from pod_statuses_each [OF p] have "list_all2 pod_reported items (pods st)"
    by (rule list_all2_mono) (rule pod_status_of_reported)
  with m show ?thesis by blast
qed

theorem pod_flags_per_pod_witness:
  "fst (get_deployment_status status_world status_state ''myapp'') = Some expected_status \<and>
   (\<exists>items. matched_pods status_world status_state ''myapp'' = Inr items \<and>
            list_all2 pod_reported items (pods expected_status))"
proof -
  have h: "fst (get_deployment_status status_world status_state ''myapp'') = Some expected_status"
    by code_simp
  from pod_flags_per_pod [OF h] h show ?thesis by simp
qed

text \<open>
  Claim C2 as stated fails: there is no flag or count over all matched pods. With three
  matched pods of which the second has a container that is not ready, the first pod is
  still reported ready; and the first two pods are reported with one restart each, while
  the restart counts of all containers of all matched pods add up to 2.
\<close>

theorem aggregate_flag_counterexample:
  "fst (get_deployment_status status_world status_state ''myapp'') = Some expected_status \<and>
   matched_pods status_world status_state ''myapp'' = Inr [pod_a, pod_b, pod_c] \<and>
   ready (pods expected_status ! 0) \<and>
   \<not> list_all reports_ready (all_containers [pod_a, pod_b, pod_c]) \<and>
   restarts (pods expected_status ! 0) = 1 \<and>
   restarts (pods expected_status ! 1) = 1 \<and>
   sum_list (map restart_count (all_containers [pod_a, pod_b, pod_c])) = 2"
  by code_simp

text \<open>
  Claim C8. When the deployment query or the pod query returns a non-zero code, or the
  output of either does not parse as JSON, \<^verbatim>\<open>get_deployment_status\<close> returns \<^verbatim>\<open>None\<close>.
\<close>

theorem status_none_on_failure:
  assumes "returncode (deployment_response w s nm) \<noteq> 0
         \<or> json_loads w (stdout (deployment_response w s nm)) = None
         \<or> returncode (pods_response w s nm) \<noteq> 0
         \<or> json_loads w (stdout (pods_response w s nm)) = None"
  shows "fst (get_deployment_status w s nm) = None"
  using assms
  by (auto simp: get_deployment_status_def run_command_eq deployment_response_def
        pods_response_def loads_def split: sum.splits option.splits)

theorem status_none_on_failure_witness:
  "json_loads garbled_world (stdout (pods_response garbled_world garbled_state ''myapp'')) = None \<and>
   fst (get_deployment_status garbled_world garbled_state ''myapp'') = None"
proof -
  have h: "json_loads garbled_world (stdout (pods_response garbled_world garbled_state ''myapp'')) = None"
    by code_simp
  from status_none_on_failure [of garbled_world garbled_state "''myapp''"] h show ?thesis
    by simp
qed

text \<open>
  Claim C9. In a result of a status query, a matched pod whose list of container statuses
  is empty or absent is reported as ready, with zero restarts.
\<close>

theorem empty_pod_ready:
  assumes "fst (get_deployment_status w s nm) = Some st"
    and "matched_pods w s nm = Inr items"
    and "i < length items"
    and "container_statuses (items ! i) = Inr []"
  shows "i < length (pods st) \<and> ready (pods st ! i) \<and> restarts (pods st ! i) = 0"
proof -
  from status_pods [OF assms(1)] assms(2) have p: "pod_statuses items = Inr (pods st)"
    by auto
  from pod_statuses_each [OF p]
  have all: "list_all2 (\<lambda>pod ps. pod_status_of pod = Inr ps) items (pods st)" .
  then have len: "length items = length (pods st)"
    by (rule list_all2_lengthD)
  from list_all2_nthD [OF all assms(3)]
  have "pod_status_of (items ! i) = Inr (pods st ! i)" .
  from pod_status_of_empty [OF this assms(4)] len assms(3) show ?thesis by simp
qed

theorem empty_pod_ready_witness:
  "fst (get_deployment_status status_world status_state ''myapp'') = Some expected_status \<and>
   matched_pods status_world status_state ''myapp'' = Inr [pod_a, pod_b, pod_c] \<and>
   container_statuses ([pod_a, pod_b, pod_c] ! 2) = Inr [] \<and>
   ready (pods expected_status ! 2) \<and> restarts (pods expected_status ! 2) = 0"
proof -
  have h1: "fst (get_deployment_status status_world status_state ''myapp'') = Some expected_status"
    by code_simp
  have h2: "matched_pods status_world status_state ''myapp'' = Inr [pod_a, pod_b, pod_c]"
    by code_simp
  have h3: "2 < length [pod_a, pod_b, pod_c]"
    by simp
  have h4: "container_statuses ([pod_a, pod_b, pod_c] ! 2) = Inr []"
    by code_simp
  from empty_pod_ready [OF h1 h2 h3 h4] h1 h2 h4 show ?thesis by simp
qed

end
